theory Spec2Isabelle
  imports Complex_Main "HOL-Library.Word"
begin

unbundle bit_operations_syntax

section \<open>JavaScript strings and bytes\<close>

text \<open>
  A JavaScript string is a sequence of UTF-16 code units. Isabelle's \<open>char\<close> is a byte,
  so the program's strings are modelled as lists of 16-bit words; \<open>ascii\<close> turns an
  Isabelle literal into the JavaScript string with the same (Latin-1) characters.
\<close>

type_synonym byte = "8 word"
type_synonym u32 = "32 word"
type_synonym jsstring = "16 word list"

definition ascii :: "string \<Rightarrow> jsstring" where
  "ascii cs = map (\<lambda>c. of_nat (of_char c)) cs"

subsection \<open>\<open>TextEncoder.encode\<close>: UTF-16 code units to UTF-8 bytes\<close>

definition is_high_surrogate :: "16 word \<Rightarrow> bool" where
  "is_high_surrogate u = (0xD800 \<le> unat u \<and> unat u \<le> 0xDBFF)"

definition is_low_surrogate :: "16 word \<Rightarrow> bool" where
  "is_low_surrogate u = (0xDC00 \<le> unat u \<and> unat u \<le> 0xDFFF)"

definition scalar_of_unit :: "16 word \<Rightarrow> nat" where
  \<comment> \<open>a code unit on its own: an unpaired surrogate becomes U+FFFD\<close>
  "scalar_of_unit u =
     (if is_high_surrogate u \<or> is_low_surrogate u then 0xFFFD else unat u)"

fun code_points :: "jsstring \<Rightarrow> nat list" where
  "code_points [] = []"
| "code_points [u] = [scalar_of_unit u]"
| "code_points (u # v # rest) =
     (if is_high_surrogate u \<and> is_low_surrogate v
      then (0x10000 + (unat u - 0xD800) * 0x400 + (unat v - 0xDC00)) # code_points rest
      else scalar_of_unit u # code_points (v # rest))"

definition utf8_of_code_point :: "nat \<Rightarrow> byte list" where
  "utf8_of_code_point c =
     (if c < 0x80 then [of_nat c]
      else if c < 0x800 then [of_nat (0xC0 + c div 0x40), of_nat (0x80 + c mod 0x40)]
      else if c < 0x10000 then
        [of_nat (0xE0 + c div 0x1000), of_nat (0x80 + (c div 0x40) mod 0x40),
         of_nat (0x80 + c mod 0x40)]
      else
        [of_nat (0xF0 + c div 0x40000), of_nat (0x80 + (c div 0x1000) mod 0x40),
         of_nat (0x80 + (c div 0x40) mod 0x40), of_nat (0x80 + c mod 0x40)])"

definition encode :: "jsstring \<Rightarrow> byte list" where
  "encode input = concat (map utf8_of_code_point (code_points input))"

section \<open>\<open>crypto.subtle.digest("SHA-256", data)\<close>\<close>

text \<open>
  The digest is the library's SHA-256 (FIPS 180-4), written out here so that the
  fingerprint is an executable function of the title.
\<close>

definition K256 :: "u32 list" where
  "K256 =
    [0x428A2F98, 0x71374491, 0xB5C0FBCF, 0xE9B5DBA5, 0x3956C25B, 0x59F111F1, 0x923F82A4, 0xAB1C5ED5,
     0xD807AA98, 0x12835B01, 0x243185BE, 0x550C7DC3, 0x72BE5D74, 0x80DEB1FE, 0x9BDC06A7, 0xC19BF174,
     0xE49B69C1, 0xEFBE4786, 0x0FC19DC6, 0x240CA1CC, 0x2DE92C6F, 0x4A7484AA, 0x5CB0A9DC, 0x76F988DA,
     0x983E5152, 0xA831C66D, 0xB00327C8, 0xBF597FC7, 0xC6E00BF3, 0xD5A79147, 0x06CA6351, 0x14292967,
     0x27B70A85, 0x2E1B2138, 0x4D2C6DFC, 0x53380D13, 0x650A7354, 0x766A0ABB, 0x81C2C92E, 0x92722C85,
     0xA2BFE8A1, 0xA81A664B, 0xC24B8B70, 0xC76C51A3, 0xD192E819, 0xD6990624, 0xF40E3585, 0x106AA070,
     0x19A4C116, 0x1E376C08, 0x2748774C, 0x34B0BCB5, 0x391C0CB3, 0x4ED8AA4A, 0x5B9CCA4F, 0x682E6FF3,
     0x748F82EE, 0x78A5636F, 0x84C87814, 0x8CC70208, 0x90BEFFFA, 0xA4506CEB, 0xBEF9A3F7, 0xC67178F2]"

datatype hash8 = Hash8 u32 u32 u32 u32 u32 u32 u32 u32

definition H256_init :: hash8 where
  "H256_init = Hash8 0x6A09E667 0xBB67AE85 0x3C6EF372 0xA54FF53A
                     0x510E527F 0x9B05688C 0x1F83D9AB 0x5BE0CD19"

definition Ch :: "u32 \<Rightarrow> u32 \<Rightarrow> u32 \<Rightarrow> u32" where
  "Ch x y z = (x AND y) XOR (NOT x AND z)"

definition Maj :: "u32 \<Rightarrow> u32 \<Rightarrow> u32 \<Rightarrow> u32" where
  "Maj x y z = (x AND y) XOR (x AND z) XOR (y AND z)"

definition Sigma0 :: "u32 \<Rightarrow> u32" where
  "Sigma0 x = word_rotr 2 x XOR word_rotr 13 x XOR word_rotr 22 x"

definition Sigma1 :: "u32 \<Rightarrow> u32" where
  "Sigma1 x = word_rotr 6 x XOR word_rotr 11 x XOR word_rotr 25 x"

definition sigma0 :: "u32 \<Rightarrow> u32" where
  "sigma0 x = word_rotr 7 x XOR word_rotr 18 x XOR drop_bit 3 x"

definition sigma1 :: "u32 \<Rightarrow> u32" where
  "sigma1 x = word_rotr 17 x XOR word_rotr 19 x XOR drop_bit 10 x"

definition be32 :: "u32 \<Rightarrow> byte list" where
  "be32 w = [ucast (drop_bit 24 w), ucast (drop_bit 16 w), ucast (drop_bit 8 w), ucast w]"

definition be64 :: "64 word \<Rightarrow> byte list" where
  "be64 w =
     [ucast (drop_bit 56 w), ucast (drop_bit 48 w), ucast (drop_bit 40 w), ucast (drop_bit 32 w),
      ucast (drop_bit 24 w), ucast (drop_bit 16 w), ucast (drop_bit 8 w), ucast w]"

definition pad :: "byte list \<Rightarrow> byte list" where
  \<comment> \<open>a 1 bit, zeros up to 56 mod 64 bytes, then the bit length in 64 bits\<close>
  "pad msg =
     msg @ [0x80] @ replicate ((119 - length msg mod 64) mod 64) 0 @ be64 (of_nat (8 * length msg))"

fun words_of :: "byte list \<Rightarrow> u32 list" where
  "words_of (a # b # c # d # rest) =
     (push_bit 24 (ucast a) OR push_bit 16 (ucast b) OR push_bit 8 (ucast c) OR ucast d)
       # words_of rest"
| "words_of _ = []"

primrec schedule :: "nat \<Rightarrow> u32 list \<Rightarrow> u32 list" where
  "schedule 0 ws = ws"
| "schedule (Suc n) ws =
     schedule n
       (ws @ [sigma1 (ws ! (length ws - 2)) + ws ! (length ws - 7)
              + sigma0 (ws ! (length ws - 15)) + ws ! (length ws - 16)])"

definition sha_round :: "hash8 \<Rightarrow> u32 \<times> u32 \<Rightarrow> hash8" where
  "sha_round s kw =
     (case s of Hash8 a b c d e f g h \<Rightarrow>
        let T1 = h + Sigma1 e + Ch e f g + fst kw + snd kw;
            T2 = Sigma0 a + Maj a b c
        in Hash8 (T1 + T2) a b c (d + T1) e f g)"

definition add8 :: "hash8 \<Rightarrow> hash8 \<Rightarrow> hash8" where
  "add8 s t =
     (case s of Hash8 a b c d e f g h \<Rightarrow>
      case t of Hash8 a' b' c' d' e' f' g' h' \<Rightarrow>
        Hash8 (a + a') (b + b') (c + c') (d + d') (e + e') (f + f') (g + g') (h + h'))"

definition compress :: "hash8 \<Rightarrow> byte list \<Rightarrow> hash8" where
  "compress H block =
     add8 H (foldl sha_round H (zip K256 (schedule 48 (words_of block))))"

primrec process :: "nat \<Rightarrow> hash8 \<Rightarrow> byte list \<Rightarrow> hash8" where
  "process 0 H bs = H"
| "process (Suc n) H bs = process n (compress H (take 64 bs)) (drop 64 bs)"

definition bytes_of_hash :: "hash8 \<Rightarrow> byte list" where
  "bytes_of_hash s =
     (case s of Hash8 a b c d e f g h \<Rightarrow>
        be32 a @ be32 b @ be32 c @ be32 d @ be32 e @ be32 f @ be32 g @ be32 h)"

definition sha256 :: "byte list \<Rightarrow> byte list" where
  "sha256 msg = bytes_of_hash (process (length (pad msg) div 64) H256_init (pad msg))"

section \<open>Content fingerprint\<close>

datatype error =
    TransportError      \<comment> \<open>\<open>contract.list()\<close> rejected\<close>
  | TypeError           \<comment> \<open>a JavaScript \<open>TypeError\<close>\<close>
  | ConstraintError     \<comment> \<open>SQLite refused a statement: a primary key would repeat\<close>
  | OutsideModel        \<comment> \<open>a library behaviour this development does not describe\<close>

text \<open>
  The loop of \<open>getLow128BitsOfSHA256\<close>: \<open>result = (result << 8n) + BigInt(low128[i])\<close>
  for \<open>i\<close> from 0 to 15. A \<open>BigInt\<close> is an unbounded integer. Reading past the end
  of the array gives \<open>undefined\<close>, on which \<open>BigInt\<close> throws.
\<close>

function low128_loop :: "byte list \<Rightarrow> nat \<Rightarrow> int \<Rightarrow> error + int" where
  "low128_loop low128 i result =
     (if i < 16 then
        (if i < length low128
         then low128_loop low128 (i + 1) (push_bit 8 result + uint (low128 ! i))
         else Inl TypeError)
      else Inr result)"
  by pat_completeness auto
termination
  by (relation "measure (\<lambda>(low128, i, result). 16 - i)") auto

definition getLow128BitsOfSHA256 :: "jsstring \<Rightarrow> error + int" where
  "getLow128BitsOfSHA256 input =
     (let data = encode input;
          hashBuffer = sha256 data;
          low128 = drop 16 hashBuffer
      in low128_loop low128 0 0)"

text \<open>
  The specification's wording, for comparison: bytes 16 to 31 of the hash of the UTF-8
  encoding, read as a big-endian unsigned integer.
\<close>

definition big_endian :: "byte list \<Rightarrow> int" where
  "big_endian bs = (\<Sum>i<length bs. uint (bs ! i) * 256 ^ (length bs - 1 - i))"

definition fingerprint_spec :: "jsstring \<Rightarrow> int" where
  "fingerprint_spec s = big_endian (map (\<lambda>i. sha256 (encode s) ! i) [16..<32])"

definition horner :: "int \<Rightarrow> byte list \<Rightarrow> int" where
  \<comment> \<open>the loop's accumulation, as a fold over the bytes it reads\<close>
  "horner r bs = foldl (\<lambda>acc b. push_bit 8 acc + uint b) r bs"

section \<open>JavaScript values\<close>

text \<open>
  A Number is a double. Its finite values are rationals; arithmetic on them is described
  only where it is exact (integers up to \<open>2\<^sup>5\<^sup>3\<close>), and every other case is reported as
  \<open>OutsideModel\<close> rather than guessed. \<open>Fin 0\<close> stands for both zeros.
\<close>

datatype jsnum = NaN | PosInf | NegInf | Fin rat

datatype jsval =
    JUndefined
  | JNull
  | JBool bool
  | JNum jsnum
  | JBigInt int
  | JStr jsstring
  | JArray "jsval list"
  | JObject "(string \<times> jsval) list"
      \<comment> \<open>an object with its own properties, none of them a function\<close>

text \<open>An object with named properties; reading a property it does not have gives \<open>undefined\<close>.\<close>

type_synonym jsobj = "(string \<times> jsval) list"

definition property :: "jsobj \<Rightarrow> string \<Rightarrow> jsval" where
  "property obj name = (case map_of obj name of None \<Rightarrow> JUndefined | Some v \<Rightarrow> v)"

fun truthy :: "jsval \<Rightarrow> bool" where
  "truthy JUndefined = False"
| "truthy JNull = False"
| "truthy (JBool b) = b"
| "truthy (JNum NaN) = False"
| "truthy (JNum (Fin q)) = (q \<noteq> 0)"
| "truthy (JNum PosInf) = True"
| "truthy (JNum NegInf) = True"
| "truthy (JBigInt n) = (n \<noteq> 0)"
| "truthy (JStr s) = (s \<noteq> [])"
| "truthy (JArray vs) = True"
| "truthy (JObject ps) = True"

subsection \<open>Numbers and strings\<close>

definition is_digit :: "16 word \<Rightarrow> bool" where
  "is_digit c = (0x30 \<le> unat c \<and> unat c \<le> 0x39)"

definition digit_value :: "16 word \<Rightarrow> nat" where
  "digit_value c = unat c - 0x30"

definition decimal_value :: "jsstring \<Rightarrow> nat" where
  "decimal_value ds = foldl (\<lambda>acc c. 10 * acc + digit_value c) 0 ds"

fun decimal_nat :: "nat \<Rightarrow> jsstring" where
  "decimal_nat n =
     (if n < 10 then [of_nat (0x30 + n)]
      else decimal_nat (n div 10) @ [of_nat (0x30 + n mod 10)])"

declare decimal_nat.simps [simp del]

definition decimal :: "int \<Rightarrow> jsstring" where
  \<comment> \<open>\<open>0x2D\<close> is the minus sign\<close>
  "decimal n = (if n < 0 then 0x2D # decimal_nat (nat (- n)) else decimal_nat (nat n))"

definition is_integer :: "rat \<Rightarrow> bool" where
  "is_integer q = (q = of_int \<lfloor>q\<rfloor>)"

definition safe_integer :: "rat \<Rightarrow> bool" where
  \<comment> \<open>an integer of magnitude at most \<open>2\<^sup>5\<^sup>3\<close>: every such value is a double\<close>
  "safe_integer q = (is_integer q \<and> \<bar>q\<bar> \<le> 9007199254740992)"

definition js_whitespace :: "16 word \<Rightarrow> bool" where
  \<comment> \<open>\<open>WhiteSpace\<close> and \<open>LineTerminator\<close> of ECMAScript\<close>
  "js_whitespace c =
     (c = 0x09 \<or> c = 0x0A \<or> c = 0x0B \<or> c = 0x0C \<or> c = 0x0D \<or> c = 0x20 \<or> c = 0xA0
      \<or> c = 0x1680 \<or> (0x2000 \<le> unat c \<and> unat c \<le> 0x200A) \<or> c = 0x2028 \<or> c = 0x2029
      \<or> c = 0x202F \<or> c = 0x205F \<or> c = 0x3000 \<or> c = 0xFEFF)"

fun strip_sign :: "jsstring \<Rightarrow> bool \<times> jsstring" where
  \<comment> \<open>\<open>0x2B\<close> is \<open>+\<close>, \<open>0x2D\<close> is \<open>-\<close>; the flag says that the sign was \<open>-\<close>\<close>
  "strip_sign [] = (False, [])"
| "strip_sign (c # cs) =
     (if c = 0x2D then (True, cs) else if c = 0x2B then (False, cs) else (False, c # cs))"

definition parseInt :: "jsstring \<Rightarrow> error + jsnum" where
  \<comment> \<open>\<open>parseInt(string, 10)\<close> on a string\<close>
  "parseInt inputString =
     (let S = dropWhile js_whitespace inputString;
          (neg, S') = strip_sign S;
          Z = takeWhile is_digit S'
      in if Z = [] then Inr NaN
         else if decimal_value Z \<le> 9007199254740992
              then Inr (Fin (of_int (if neg then - int (decimal_value Z) else int (decimal_value Z))))
              else Inl OutsideModel)"

definition num_add :: "jsnum \<Rightarrow> jsnum \<Rightarrow> error + jsnum" where
  \<comment> \<open>\<open>a + b\<close> on two Numbers\<close>
  "num_add a b =
     (case (a, b) of
        (NaN, _) \<Rightarrow> Inr NaN
      | (_, NaN) \<Rightarrow> Inr NaN
      | (Fin x, Fin y) \<Rightarrow>
          if safe_integer x \<and> safe_integer y \<and> safe_integer (x + y) then Inr (Fin (x + y))
          else Inl OutsideModel
      | (PosInf, NegInf) \<Rightarrow> Inr NaN
      | (NegInf, PosInf) \<Rightarrow> Inr NaN
      | (PosInf, _) \<Rightarrow> Inr PosInf
      | (_, PosInf) \<Rightarrow> Inr PosInf
      | (NegInf, _) \<Rightarrow> Inr NegInf
      | (_, NegInf) \<Rightarrow> Inr NegInf)"

definition num_toString :: "jsnum \<Rightarrow> error + jsstring" where
  \<comment> \<open>\<open>Number.prototype.toString()\<close>\<close>
  "num_toString x =
     (case x of
        NaN \<Rightarrow> Inr (ascii ''NaN'')
      | PosInf \<Rightarrow> Inr (ascii ''Infinity'')
      | NegInf \<Rightarrow> Inr (ascii ''-Infinity'')
      | Fin q \<Rightarrow> if safe_integer q then Inr (decimal \<lfloor>q\<rfloor>) else Inl OutsideModel)"

definition ToString :: "jsval \<Rightarrow> error + jsstring" where
  \<comment> \<open>the conversion applied to a non-string argument, as by \<open>parseInt\<close>\<close>
  "ToString v =
     (case v of
        JUndefined \<Rightarrow> Inr (ascii ''undefined'')
      | JNull \<Rightarrow> Inr (ascii ''null'')
      | JBool b \<Rightarrow> Inr (ascii (if b then ''true'' else ''false''))
      | JNum x \<Rightarrow> num_toString x
      | JBigInt n \<Rightarrow> Inr (decimal n)
      | JStr s \<Rightarrow> Inr s
      | JArray vs \<Rightarrow> Inl OutsideModel
      | JObject ps \<Rightarrow> Inl OutsideModel)"

definition toString :: "jsval \<Rightarrow> error + jsstring" where
  \<comment> \<open>the method call \<open>v.toString()\<close>, which throws on \<open>undefined\<close> and \<open>null\<close>\<close>
  "toString v =
     (case v of JUndefined \<Rightarrow> Inl TypeError | JNull \<Rightarrow> Inl TypeError | _ \<Rightarrow> ToString v)"

definition and_then :: "'e + 'a \<Rightarrow> ('a \<Rightarrow> 'e + 'b) \<Rightarrow> 'e + 'b" where
  "and_then m f = (case m of Inl e \<Rightarrow> Inl e | Inr x \<Rightarrow> f x)"

section \<open>The database\<close>

text \<open>
  The tables are those of the two \<open>CREATE TABLE\<close> statements. \<open>Markets\<close> has a text
  primary key, so SQLite gives its rows a hidden integer \<open>rowid\<close>; it is a field of the
  stored row, and not one of the table's declared columns.
\<close>

datatype sqlval = SqlNull | SqlNumber rat | SqlText jsstring

record market =
  rowid :: int
  id_col :: jsstring            \<comment> \<open>column \<open>id\<close>\<close>
  title :: jsstring
  description :: sqlval
  expiration :: sqlval
  creator :: sqlval
  totalAmount :: sqlval
  IsExpired :: int
  IsVerified :: int

record bet =
  betId :: jsstring
  marketId_col :: sqlval
  userId_col :: sqlval
  amount_col :: sqlval
  outcome_col :: sqlval
  date_col :: sqlval

text \<open>The statements the program sends, each with the values it passes for the \<open>?\<close>s.\<close>

datatype stmt =
    SelectUnverified
      \<comment> \<open>\<open>SELECT * FROM Markets WHERE IsVerified = 0 LIMIT 1\<close>\<close>
  | UpdateVerified jsval jsval jsval jsval jsval
      \<comment> \<open>\<open>UPDATE Markets SET id = ?, expiration = ?, creator = ?, totalAmount = ?,
          IsVerified = 1 WHERE rowid = ?\<close>\<close>
  | UpdateId jsval jsval
      \<comment> \<open>\<open>UPDATE Markets SET id = ? WHERE rowid = ?\<close>\<close>
  | SelectMaxId
      \<comment> \<open>\<open>SELECT id FROM Markets ORDER BY CAST(id AS INTEGER) DESC LIMIT 1\<close>\<close>
  | InsertBet jsval jsval jsval jsval jsval jsval
      \<comment> \<open>\<open>INSERT INTO Bets (betId, marketId, userId, amount, outcome, date)
          VALUES (?, ?, ?, ?, ?, ?)\<close>\<close>
  | UpdateTotalAmount jsval jsval
      \<comment> \<open>\<open>UPDATE Markets SET totalAmount = totalAmount + ? WHERE id = ?\<close>\<close>

record db =
  Markets :: "market list"      \<comment> \<open>in the order a table scan visits them\<close>
  Bets :: "bet list"
  statements :: "stmt list"     \<comment> \<open>every statement sent so far, oldest first\<close>

fun is_read :: "stmt \<Rightarrow> bool" where
  "is_read SelectUnverified = True"
| "is_read SelectMaxId = True"
| "is_read _ = False"

fun is_write :: "stmt \<Rightarrow> bool" where
  "is_write SelectUnverified = False"
| "is_write SelectMaxId = False"
| "is_write _ = True"

subsection \<open>Values in and out\<close>

fun bind_param :: "jsval \<Rightarrow> error + sqlval" where
  \<comment> \<open>the driver's binding of one parameter; it skips \<open>undefined\<close>, and a parameter that
      was never bound is \<open>NULL\<close>\<close>
  "bind_param JUndefined = Inr SqlNull"
| "bind_param JNull = Inr SqlNull"
| "bind_param (JBool b) = Inr (SqlNumber (if b then 1 else 0))"
| "bind_param (JNum NaN) = Inr SqlNull"
| "bind_param (JNum (Fin q)) = Inr (SqlNumber q)"
| "bind_param (JNum PosInf) = Inl OutsideModel"
| "bind_param (JNum NegInf) = Inl OutsideModel"
| "bind_param (JStr t) = Inr (SqlText t)"
| "bind_param (JBigInt n) = Inl OutsideModel"
| "bind_param (JArray vs) = Inl OutsideModel"
| "bind_param (JObject ps) = Inl OutsideModel"

fun js_of_sql :: "sqlval \<Rightarrow> jsval" where
  "js_of_sql SqlNull = JNull"
| "js_of_sql (SqlNumber q) = JNum (Fin q)"
| "js_of_sql (SqlText t) = JStr t"

fun text_affinity :: "sqlval \<Rightarrow> error + sqlval" where
  \<comment> \<open>a \<open>TEXT\<close> column keeps a number as its text, which is not described here\<close>
  "text_affinity (SqlNumber q) = Inl OutsideModel"
| "text_affinity v = Inr v"

fun integer_affinity :: "sqlval \<Rightarrow> error + sqlval" where
  \<comment> \<open>an \<open>INTEGER\<close> column keeps a text that reads as a number as that number\<close>
  "integer_affinity (SqlText t) = Inl OutsideModel"
| "integer_affinity v = Inr v"

fun text_param :: "jsval \<Rightarrow> error + jsstring" where
  \<comment> \<open>a parameter for a column this development keeps as a string\<close>
  "text_param (JStr t) = Inr t"
| "text_param _ = Inl OutsideModel"

fun rowid_param :: "jsval \<Rightarrow> error + int option" where
  \<comment> \<open>the parameter of \<open>WHERE rowid = ?\<close>: the one rowid it is equal to, if any.
      Nothing is equal to \<open>NULL\<close>.\<close>
  "rowid_param JUndefined = Inr None"
| "rowid_param JNull = Inr None"
| "rowid_param (JNum NaN) = Inr None"
| "rowid_param (JNum (Fin q)) = Inr (if is_integer q then Some \<lfloor>q\<rfloor> else None)"
| "rowid_param (JBool b) = Inr (Some (if b then 1 else 0))"
| "rowid_param _ = Inl OutsideModel"

fun id_param :: "jsval \<Rightarrow> error + jsstring option" where
  \<comment> \<open>the parameter of \<open>WHERE id = ?\<close> on the text column\<close>
  "id_param JUndefined = Inr None"
| "id_param JNull = Inr None"
| "id_param (JNum NaN) = Inr None"
| "id_param (JStr t) = Inr (Some t)"
| "id_param _ = Inl OutsideModel"

fun sql_add :: "sqlval \<Rightarrow> sqlval \<Rightarrow> error + sqlval" where
  \<comment> \<open>SQLite's \<open>+\<close>, where integer and floating-point addition agree and are exact\<close>
  "sql_add SqlNull _ = Inr SqlNull"
| "sql_add _ SqlNull = Inr SqlNull"
| "sql_add (SqlNumber a) (SqlNumber b) =
     (if safe_integer a \<and> safe_integer b \<and> safe_integer (a + b)
      then Inr (SqlNumber (a + b)) else Inl OutsideModel)"
| "sql_add _ _ = Inl OutsideModel"

subsection \<open>Queries\<close>

definition select_star :: "market \<Rightarrow> jsobj" where
  \<comment> \<open>the row object of \<open>SELECT *\<close>: one property for each declared column\<close>
  "select_star r =
     [(''id'', JStr (id_col r)),
      (''title'', JStr (title r)),
      (''description'', js_of_sql (description r)),
      (''expiration'', js_of_sql (expiration r)),
      (''creator'', js_of_sql (creator r)),
      (''totalAmount'', js_of_sql (totalAmount r)),
      (''IsExpired'', JNum (Fin (of_int (IsExpired r)))),
      (''IsVerified'', JNum (Fin (of_int (IsVerified r))))]"

definition first_unverified :: "market list \<Rightarrow> market option" where
  "first_unverified rows = find (\<lambda>r. IsVerified r = 0) rows"

definition sqlite_space :: "16 word \<Rightarrow> bool" where
  "sqlite_space c =
     (c = 0x09 \<or> c = 0x0A \<or> c = 0x0B \<or> c = 0x0C \<or> c = 0x0D \<or> c = 0x20)"

definition cast_integer :: "jsstring \<Rightarrow> int" where
  \<comment> \<open>\<open>CAST(text AS INTEGER)\<close>: leading spaces are skipped, the longest integer prefix
      is read, 0 if there is none, and the result stays within 64 bits\<close>
  "cast_integer t =
     (let (neg, S) = strip_sign (dropWhile sqlite_space t);
          n = int (decimal_value (takeWhile is_digit S))
      in if neg then max (- 9223372036854775808) (- n) else min 9223372036854775807 n)"

fun first_max :: "market list \<Rightarrow> market option" where
  \<comment> \<open>a row with the largest key of \<open>ORDER BY CAST(id AS INTEGER) DESC\<close>\<close>
  "first_max [] = None"
| "first_max (r # rows) =
     (case first_max rows of
        None \<Rightarrow> Some r
      | Some m \<Rightarrow> if cast_integer (id_col r) < cast_integer (id_col m) then Some m else Some r)"


definition db_get :: "stmt \<Rightarrow> db \<Rightarrow> jsobj option \<times> db" where
  \<comment> \<open>\<open>db.get\<close>: the first row of the result, if there is one; for the largest id
      that row is determined unless \<open>ambiguous_max\<close> holds\<close>
  "db_get st s =
     ((case st of
         SelectUnverified \<Rightarrow> map_option select_star (first_unverified (Markets s))
       | SelectMaxId \<Rightarrow> map_option (\<lambda>r. [(''id'', JStr (id_col r))]) (first_max (Markets s))
       | _ \<Rightarrow> None),
      s\<lparr>statements := statements s @ [st]\<rparr>)"

subsection \<open>Writes\<close>

definition set_where_rowid :: "int option \<Rightarrow> (market \<Rightarrow> market) \<Rightarrow> market list \<Rightarrow> market list" where
  "set_where_rowid h f rows = map (\<lambda>r. if Some (rowid r) = h then f r else r) rows"

definition keep_primary_key :: "market list \<Rightarrow> market list \<Rightarrow> error + market list" where
  \<comment> \<open>an update that would make two rows share an \<open>id\<close> fails and changes nothing\<close>
  "keep_primary_key rows rows' =
     (if rows' = rows \<or> distinct (map id_col rows') then Inr rows' else Inl ConstraintError)"

fun add_total :: "jsstring option \<Rightarrow> sqlval \<Rightarrow> market list \<Rightarrow> error + market list" where
  "add_total k v [] = Inr []"
| "add_total k v (r # rows) =
     and_then (if Some (id_col r) = k
               then and_then (and_then (sql_add (totalAmount r) v) integer_affinity)
                      (\<lambda>t. Inr (r\<lparr>totalAmount := t\<rparr>))
               else Inr r)
       (\<lambda>r'. and_then (add_total k v rows) (\<lambda>rows'. Inr (r' # rows')))"

fun run_write :: "stmt \<Rightarrow> db \<Rightarrow> error + db" where
  "run_write (UpdateVerified newId expiration' creator' totalAmount' handle) s =
     and_then (text_param newId) (\<lambda>i.
     and_then (and_then (bind_param expiration') text_affinity) (\<lambda>e.
     and_then (and_then (bind_param creator') text_affinity) (\<lambda>c.
     and_then (and_then (bind_param totalAmount') integer_affinity) (\<lambda>t.
     and_then (rowid_param handle) (\<lambda>h.
     and_then (keep_primary_key (Markets s)
                 (set_where_rowid h
                    (\<lambda>r. r\<lparr>id_col := i, expiration := e, creator := c, totalAmount := t,
                            IsVerified := 1\<rparr>)
                    (Markets s))) (\<lambda>rows'.
     Inr (s\<lparr>Markets := rows'\<rparr>)))))))"
| "run_write (UpdateId newId handle) s =
     and_then (text_param newId) (\<lambda>i.
     and_then (rowid_param handle) (\<lambda>h.
     and_then (keep_primary_key (Markets s)
                 (set_where_rowid h (\<lambda>r. r\<lparr>id_col := i\<rparr>) (Markets s))) (\<lambda>rows'.
     Inr (s\<lparr>Markets := rows'\<rparr>))))"
| "run_write (InsertBet betId' marketId' userId' amount' outcome' date') s =
     and_then (text_param betId') (\<lambda>b.
     and_then (and_then (bind_param marketId') text_affinity) (\<lambda>m.
     and_then (and_then (bind_param userId') text_affinity) (\<lambda>u.
     and_then (and_then (bind_param amount') integer_affinity) (\<lambda>a.
     and_then (and_then (bind_param outcome') text_affinity) (\<lambda>out.
     and_then (and_then (bind_param date') text_affinity) (\<lambda>d.
     if list_ex (\<lambda>x. betId x = b) (Bets s) then Inl ConstraintError
     else Inr (s\<lparr>Bets := Bets s @
                 [\<lparr>betId = b, marketId_col = m, userId_col = u, amount_col = a,
                   outcome_col = out, date_col = d\<rparr>]\<rparr>)))))))"
| "run_write (UpdateTotalAmount amount' marketId') s =
     and_then (bind_param amount') (\<lambda>a.
     and_then (id_param marketId') (\<lambda>k.
     and_then (add_total k a (Markets s)) (\<lambda>rows'.
     Inr (s\<lparr>Markets := rows'\<rparr>))))"
| "run_write _ s = Inr s"

text \<open>
  The database after a call that has sent the statements \<open>new\<close>: the first writing
  statement among them is carried out as a whole, or fails and changes nothing.
\<close>

definition after_writes :: "stmt list \<Rightarrow> db \<Rightarrow> db" where
  "after_writes new s1 =
     (case filter is_write new of
        [] \<Rightarrow> s1
      | w # ws \<Rightarrow> (case run_write w s1 of Inr s' \<Rightarrow> s' | Inl e \<Rightarrow> s1))"

section \<open>\<open>update\<close>: reconciling one record with the contract's list\<close>

text \<open>
  \<open>update\<close> returns nothing; what it reports is the line it prints. \<open>WriteFailed\<close> stands
  for the two \<open>console.error\<close> lines of the \<open>db.run\<close> callbacks.
\<close>

datatype reconciled =
    NoPendingRecord                 \<comment> \<open>"No unverified records found."\<close>
  | Verified jsstring               \<comment> \<open>"Verified market with new ID ..."\<close>
  | Unmatched jsstring bool         \<comment> \<open>"No hash match; updated ID to ..." when the flag is
                                        set, "No match and ID is already correct" otherwise\<close>
  | WriteFailed

definition db_run :: "stmt \<Rightarrow> reconciled \<Rightarrow> db \<Rightarrow> (error + reconciled) \<times> db" where
  \<comment> \<open>\<open>db.run\<close> with a callback that prints the error, or else the success line\<close>
  "db_run st success s =
     (let s' = s\<lparr>statements := statements s @ [st]\<rparr>
      in case run_write st s' of
           Inr s'' \<Rightarrow> (Inr success, s'')
         | Inl OutsideModel \<Rightarrow> (Inl OutsideModel, s')
         | Inl e \<Rightarrow> (Inr WriteFailed, s'))"

fun encode_argument :: "jsval \<Rightarrow> error + jsstring" where
  \<comment> \<open>the string \<open>TextEncoder.encode\<close> encodes: none for a missing argument\<close>
  "encode_argument JUndefined = Inr []"
| "encode_argument v = ToString v"

definition suggested_id :: "jsobj list \<Rightarrow> error + jsstring" where
  "suggested_id contractList =
     and_then (if length contractList > 0
               then and_then (ToString (property (last contractList) ''id'')) parseInt
               else Inr (Fin 0)) (\<lambda>lastId.
     and_then (num_add lastId (Fin 1)) num_toString)"

definition update :: "error + jsobj list \<Rightarrow> db \<Rightarrow> (error + reconciled) \<times> db" where
  "update listed s =
     (case listed of
        Inl e \<Rightarrow> (Inl e, s)
      | Inr contractList \<Rightarrow>
          (case db_get SelectUnverified s of
             (None, s1) \<Rightarrow> (Inr NoPendingRecord, s1)
           | (Some unverified, s1) \<Rightarrow>
               (let originalId = property unverified ''id''
                in case and_then (encode_argument (property unverified ''title''))
                          getLow128BitsOfSHA256 of
                     Inl e \<Rightarrow> (Inl e, s1)
                   | Inr titleHash \<Rightarrow>
                       (case find (\<lambda>chainQ. property chainQ ''question_title_hash''
                                              = JBigInt titleHash) contractList of
                          Some matchedContract \<Rightarrow>
                            (case toString (property matchedContract ''id'') of
                               Inl e \<Rightarrow> (Inl e, s1)
                             | Inr newId \<Rightarrow>
                                 db_run (UpdateVerified (JStr newId)
                                           (property matchedContract ''expiration'')
                                           (property matchedContract ''creator'')
                                           (property matchedContract ''totalAmount'')
                                           (property unverified ''rowid''))
                                   (Verified newId) s1)
                        | None \<Rightarrow>
                            (case suggested_id contractList of
                               Inl e \<Rightarrow> (Inl e, s1)
                             | Inr suggestedId \<Rightarrow>
                                 if originalId \<noteq> JStr suggestedId
                                 then db_run (UpdateId (JStr suggestedId)
                                                (property unverified ''rowid''))
                                        (Unmatched suggestedId True) s1
                                 else (Inr (Unmatched suggestedId False), s1))))))"

section \<open>The endpoints\<close>

datatype payload = ErrorMessage string | Success string | NextId jsstring

datatype response = Response nat payload

subsection \<open>\<open>GET /api/next-market-id\<close>\<close>




subsection \<open>\<open>POST /api/save-bet\<close>\<close>

record bet_request =
  userId :: jsval
  marketId :: jsval
  amount :: jsval
  outcome :: jsval
  date :: jsval

text \<open>
  \<open>amount <= 0\<close> compares numbers, so any other value is first turned into a number.
  Only the answer of the comparison is needed, which depends on the number's sign and on
  whether it is zero.

  A string is a number when, with white space removed at both ends, it is empty (the
  number 0), a binary, octal or hexadecimal literal, \<open>Infinity\<close> with an optional sign, or
  a decimal literal with an optional sign, fraction and exponent; otherwise it is \<open>NaN\<close>.
\<close>

definition trim :: "jsstring \<Rightarrow> jsstring" where
  "trim t = rev (dropWhile js_whitespace (rev (dropWhile js_whitespace t)))"

fun radix_literal :: "jsstring \<Rightarrow> (nat \<times> jsstring) option" where
  \<comment> \<open>the radix and the digits of a string that starts with \<open>0b\<close>, \<open>0o\<close> or \<open>0x\<close>,
      in either case of the letter\<close>
  "radix_literal (z # c # ds) =
     (if z \<noteq> 0x30 then None
      else if c = 0x62 \<or> c = 0x42 then Some (2, ds)
      else if c = 0x6F \<or> c = 0x4F then Some (8, ds)
      else if c = 0x78 \<or> c = 0x58 then Some (16, ds)
      else None)"
| "radix_literal _ = None"

definition is_radix_digit :: "nat \<Rightarrow> 16 word \<Rightarrow> bool" where
  "is_radix_digit radix c =
     (if radix = 2 then c = 0x30 \<or> c = 0x31
      else if radix = 8 then 0x30 \<le> unat c \<and> unat c \<le> 0x37
      else is_digit c \<or> (0x61 \<le> unat c \<and> unat c \<le> 0x66)
           \<or> (0x41 \<le> unat c \<and> unat c \<le> 0x46))"

fun exponent_part :: "jsstring \<Rightarrow> int option" where
  \<comment> \<open>what follows the digits of a decimal literal: nothing, or \<open>e\<close> or \<open>E\<close>, an
      optional sign and at least one digit\<close>
  "exponent_part [] = Some 0"
| "exponent_part (c # rest) =
     (if c = 0x65 \<or> c = 0x45
      then (case strip_sign rest of
              (neg, ds) \<Rightarrow>
                if ds \<noteq> [] \<and> list_all is_digit ds
                then Some (if neg then - int (decimal_value ds) else int (decimal_value ds))
                else None)
      else None)"

definition decimal_literal :: "jsstring \<Rightarrow> (nat \<times> int) option" where
  \<comment> \<open>an unsigned decimal literal as \<open>(m, e)\<close>, standing for \<open>m\<close> times 10 to the \<open>e\<close>;
      \<open>0x2E\<close> is the point\<close>
  "decimal_literal u =
     (let whole = takeWhile is_digit u; rest = dropWhile is_digit u
      in case rest of
           c # rest' \<Rightarrow>
             if c = 0x2E
             then (let fraction = takeWhile is_digit rest'
                   in if whole = [] \<and> fraction = [] then None
                      else map_option
                             (\<lambda>e. (decimal_value (whole @ fraction), e - int (length fraction)))
                             (exponent_part (dropWhile is_digit rest')))
             else if whole = [] then None
             else map_option (\<lambda>e. (decimal_value whole, e)) (exponent_part rest)
         | [] \<Rightarrow> if whole = [] then None else Some (decimal_value whole, 0))"

definition rounds_to_zero :: "nat \<Rightarrow> int \<Rightarrow> bool" where
  \<comment> \<open>whether the double nearest to \<open>m\<close> times 10 to the \<open>e\<close> is 0: the value is at most
      2 to the \<open>-1075\<close>, half of the smallest positive double\<close>
  "rounds_to_zero m e = (m = 0 \<or> (e < 0 \<and> m * 2 ^ 1075 \<le> 10 ^ nat (- e)))"

definition text_le_zero :: "jsstring \<Rightarrow> bool" where
  \<comment> \<open>\<open>Number(t) <= 0\<close>; it is false when \<open>t\<close> is not a number\<close>
  "text_le_zero t =
     (let b = trim t
      in if b = [] then True
         else case radix_literal b of
                Some (radix, ds) \<Rightarrow>
                  ds \<noteq> [] \<and> list_all (is_radix_digit radix) ds \<and> list_all (\<lambda>c. c = 0x30) ds
              | None \<Rightarrow>
                  (case strip_sign b of
                     (neg, u) \<Rightarrow>
                       if u = ascii ''Infinity'' then neg
                       else (case decimal_literal u of
                               None \<Rightarrow> False
                             | Some (m, e) \<Rightarrow> neg \<or> rounds_to_zero m e)))"

text \<open>
  An array becomes the string of its elements joined by commas, where \<open>null\<close> and
  \<open>undefined\<close> give the empty string; with two or more elements that string has a comma
  and is not a number. An object becomes \<open>[object Object]\<close>, which is not a number,
  unless a property of its own named \<open>toString\<close> hides the method: then there is nothing
  to call and the conversion throws. A number or a \<open>BigInt\<close> written as a string reads
  back with the same sign.
\<close>

fun string_throws :: "jsval \<Rightarrow> bool" where
  "string_throws (JObject ps) = (map_of ps ''toString'' \<noteq> None)"
| "string_throws (JArray vs) = list_ex string_throws vs"
| "string_throws _ = False"

fun element_le_zero :: "jsval \<Rightarrow> error + bool" where
  \<comment> \<open>\<open>Number(String(v)) <= 0\<close> for an element \<open>v\<close> of an array\<close>
  "element_le_zero JUndefined = Inr True"
| "element_le_zero JNull = Inr True"
| "element_le_zero (JBool b) = Inr False"
| "element_le_zero (JNum NaN) = Inr False"
| "element_le_zero (JNum PosInf) = Inr False"
| "element_le_zero (JNum NegInf) = Inr True"
| "element_le_zero (JNum (Fin q)) = Inr (q \<le> 0)"
| "element_le_zero (JBigInt n) = Inr (n \<le> 0)"
| "element_le_zero (JStr t) = Inr (text_le_zero t)"
| "element_le_zero (JArray []) = Inr True"
| "element_le_zero (JArray [v]) = element_le_zero v"
| "element_le_zero (JArray (v # w # vs)) =
     (if list_ex string_throws (v # w # vs) then Inl TypeError else Inr False)"
| "element_le_zero (JObject ps) =
     (if map_of ps ''toString'' \<noteq> None then Inl TypeError else Inr False)"

fun le_zero :: "jsval \<Rightarrow> error + bool" where
  \<comment> \<open>\<open>v <= 0\<close>\<close>
  "le_zero JUndefined = Inr False"
| "le_zero JNull = Inr True"
| "le_zero (JBool b) = Inr (\<not> b)"
| "le_zero (JNum NaN) = Inr False"
| "le_zero (JNum PosInf) = Inr False"
| "le_zero (JNum NegInf) = Inr True"
| "le_zero (JNum (Fin q)) = Inr (q \<le> 0)"
| "le_zero (JBigInt n) = Inr (n \<le> 0)"
| "le_zero (JStr t) = Inr (text_le_zero t)"
| "le_zero (JArray vs) = element_le_zero (JArray vs)"
| "le_zero (JObject ps) = element_le_zero (JObject ps)"

definition db_run_bet :: "stmt \<Rightarrow> string \<Rightarrow> db \<Rightarrow> (db \<Rightarrow> (error + response) \<times> db)
                          \<Rightarrow> (error + response) \<times> db" where
  \<comment> \<open>\<open>db.run\<close> with a callback that answers 500 on an error and goes on otherwise\<close>
  "db_run_bet st message s continue =
     (let s' = s\<lparr>statements := statements s @ [st]\<rparr>
      in case run_write st s' of
           Inr s'' \<Rightarrow> continue s''
         | Inl OutsideModel \<Rightarrow> (Inl OutsideModel, s')
         | Inl e \<Rightarrow> (Inr (Response 500 (ErrorMessage message)), s'))"

definition save_bet :: "nat \<Rightarrow> bet_request \<Rightarrow> db \<Rightarrow> (error + response) \<times> db" where
  \<comment> \<open>the first argument is \<open>Date.now()\<close>\<close>
  "save_bet now req s =
     (if \<not> truthy (userId req) \<or> \<not> truthy (marketId req) \<or> \<not> truthy (amount req)
         \<or> \<not> truthy (outcome req) \<or> \<not> truthy (date req)
      then (Inr (Response 400 (ErrorMessage ''Missing required bet details'')), s)
      else case le_zero (amount req) of
             Inl e \<Rightarrow> (Inl e, s)    \<comment> \<open>the comparison throws, and the handler has no \<open>catch\<close>\<close>
           | Inr True \<Rightarrow>
               (Inr (Response 400 (ErrorMessage ''Bet amount must be greater than 0'')), s)
           | Inr False \<Rightarrow>
               (let betId = decimal (int now)
                in db_run_bet
                     (InsertBet (JStr betId) (marketId req) (userId req) (amount req)
                        (outcome req) (date req))
                     ''Database error'' s
                     (\<lambda>s1. db_run_bet (UpdateTotalAmount (amount req) (marketId req))
                              ''Failed to update market totalAmount'' s1
                              (\<lambda>s2. (Inr (Response 200
                                       (Success ''Bet saved and totalAmount updated successfully'')),
                                     s2)))))"


section \<open>Example states\<close>

definition pending_T :: market where
  \<comment> \<open>an unverified market with title \<open>T\<close> and the provisional id \<open>5\<close>\<close>
  "pending_T =
     \<lparr>rowid = 1, id_col = ascii ''5'', title = ascii ''T'', description = SqlNull,
      expiration = SqlText (ascii ''2026-01-01''), creator = SqlText (ascii ''0xabc''),
      totalAmount = SqlNumber 0, IsExpired = 0, IsVerified = 0\<rparr>"

definition store_T :: db where
  "store_T = \<lparr>Markets = [pending_T], Bets = [], statements = []\<rparr>"

definition question_42 :: jsobj where
  \<comment> \<open>the contract's question 42, whose title hash is that of \<open>T\<close>\<close>
  "question_42 =
     [(''id'', JStr (ascii ''42'')),
      (''question_title_hash'', JBigInt (fingerprint_spec (ascii ''T''))),
      (''expiration'', JStr (ascii ''2027-01-01'')),
      (''creator'', JStr (ascii ''0xdef'')),
      (''totalAmount'', JNum (Fin 100))]"

definition question_7 :: jsobj where
  \<comment> \<open>the contract's question 7, with some other title hash\<close>
  "question_7 =
     [(''id'', JStr (ascii ''7'')),
      (''question_title_hash'', JBigInt (fingerprint_spec (ascii ''T'') + 1)),
      (''expiration'', JStr (ascii ''2027-01-01'')),
      (''creator'', JStr (ascii ''0xdef'')),
      (''totalAmount'', JNum (Fin 100))]"

definition verified_42 :: market where
  "verified_42 =
     \<lparr>rowid = 1, id_col = ascii ''42'', title = ascii ''T'', description = SqlNull,
      expiration = SqlText (ascii ''2027-01-01''), creator = SqlText (ascii ''0xdef''),
      totalAmount = SqlNumber 100, IsExpired = 0, IsVerified = 1\<rparr>"

definition store_verified :: db where
  "store_verified = \<lparr>Markets = [verified_42], Bets = [], statements = []\<rparr>"





definition bet_minus_5 :: bet_request where
  "bet_minus_5 =
     \<lparr>userId = JStr (ascii ''u1''), marketId = JStr (ascii ''5''), amount = JNum (Fin (- 5)),
      outcome = JStr (ascii ''yes''), date = JStr (ascii ''2026-01-02'')\<rparr>"

definition bet_text_minus_5 :: bet_request where
  \<comment> \<open>the amount sent as the string \<open>-5\<close>\<close>
  "bet_text_minus_5 =
     \<lparr>userId = JStr (ascii ''u1''), marketId = JStr (ascii ''5''),
      amount = JStr (ascii ''-5''),
      outcome = JStr (ascii ''yes''), date = JStr (ascii ''2026-01-02'')\<rparr>"

definition bet_empty_array :: bet_request where
  \<comment> \<open>the amount sent as \<open>[]\<close>\<close>
  "bet_empty_array =
     \<lparr>userId = JStr (ascii ''u1''), marketId = JStr (ascii ''5''), amount = JArray [],
      outcome = JStr (ascii ''yes''), date = JStr (ascii ''2026-01-02'')\<rparr>"

definition bet_no_date :: bet_request where
  "bet_no_date =
     \<lparr>userId = JStr (ascii ''u1''), marketId = JStr (ascii ''5''), amount = JNum (Fin 10),
      outcome = JStr (ascii ''yes''), date = JUndefined\<rparr>"

section \<open>Properties\<close>

subsection \<open>The digest and the loop\<close>

lemma length_be32: "length (be32 w) = 4"
  by (simp add: be32_def)

lemma length_bytes_of_hash: "length (bytes_of_hash h) = 32"
  by (cases h) (simp add: bytes_of_hash_def length_be32)

lemma length_sha256: "length (sha256 m) = 32"
  by (simp add: sha256_def length_bytes_of_hash)

text \<open>The padded message is a whole number of 64-byte blocks.\<close>

lemma length_be64: "length (be64 w) = 8"
  by (simp add: be64_def)

lemma zeros_of_pad:
  fixes r :: nat
  assumes "r < 64"
  shows "(r + 9 + (119 - r) mod 64) mod 64 = 0"
proof (cases "r \<le> 55")
  case True
  then have "(119 - r) mod 64 = (119 - r - 64) mod 64"
    by (simp add: le_mod_geq)
  also have "\<dots> = 55 - r" using True by simp
  finally have "r + 9 + (119 - r) mod 64 = 64 * 1" using True by simp
  then show ?thesis by (simp only: mod_mult_self1_is_0)
next
  case False
  with assms have "(119 - r) mod 64 = 119 - r" by simp
  with False assms have "r + 9 + (119 - r) mod 64 = 64 * 2" by simp
  then show ?thesis by (simp only: mod_mult_self1_is_0)
qed

lemma length_pad: "length (pad m) mod 64 = 0"
proof -
  have "length (pad m) = length m + (9 + (119 - length m mod 64) mod 64)"
    by (simp add: pad_def length_be64)
  then have "length (pad m) mod 64
      = (length m mod 64 + 9 + (119 - length m mod 64) mod 64) mod 64"
    by (simp only: mod_add_left_eq add.assoc)
  then show ?thesis using zeros_of_pad[of "length m mod 64"] by simp
qed

lemma low128_loop_horner:
  "16 \<le> length l \<Longrightarrow> i \<le> 16 \<Longrightarrow>
   low128_loop l i r = Inr (horner r (take (16 - i) (drop i l)))"
proof (induction l i r rule: low128_loop.induct)
  case (1 low128 i result)
  show ?case
  proof (cases "i < 16")
    case True
    then have il: "i < length low128" using 1 by simp
    have d: "take (16 - i) (drop i low128) = low128 ! i # take (16 - (i + 1)) (drop (i + 1) low128)"
      using True il
      by (metis Cons_nth_drop_Suc Suc_diff_Suc Suc_eq_plus1 take_Suc_Cons)
    from True il 1 show ?thesis
      by (simp add: d horner_def del: low128_loop.simps add: low128_loop.simps[of low128 i result])
  next
    case False
    then show ?thesis using 1 by (simp add: horner_def)
  qed
qed

lemma horner_snoc: "horner r (bs @ [b]) = horner r bs * 256 + uint b"
  by (simp add: horner_def push_bit_eq_mult)

lemma big_endian_snoc: "big_endian (bs @ [b]) = big_endian bs * 256 + uint b"
proof -
  have "(\<Sum>i<length bs. uint ((bs @ [b]) ! i) * 256 ^ (length bs - i))
      = (\<Sum>i<length bs. (uint (bs ! i) * 256 ^ (length bs - 1 - i)) * 256)"
    by (rule sum.cong) (auto simp: nth_append Suc_diff_Suc simp flip: power_Suc2)
  then show ?thesis
    by (simp add: big_endian_def sum_distrib_right)
qed

lemma horner_big_endian: "horner 0 bs = big_endian bs"
proof (induction bs rule: rev_induct)
  case Nil
  then show ?case by (simp add: horner_def big_endian_def)
next
  case (snoc b bs)
  then show ?case by (simp add: horner_snoc big_endian_snoc)
qed

lemma big_endian_bounds: "0 \<le> big_endian bs \<and> big_endian bs < 256 ^ length bs"
proof (induction bs rule: rev_induct)
  case Nil
  then show ?case by (simp add: big_endian_def)
next
  case (snoc b bs)
  have "uint b < 256" using uint_bounded[of b] by simp
  moreover have "0 \<le> uint b" by simp
  moreover have "big_endian bs + 1 \<le> 256 ^ length bs" using snoc by simp
  then have "(big_endian bs + 1) * 256 \<le> 256 ^ length bs * 256"
    by (rule mult_right_mono) simp
  ultimately show ?case using snoc
    by (simp add: big_endian_snoc algebra_simps)
qed

lemma map_nth_upt: "b \<le> length h \<Longrightarrow> map (\<lambda>i. h ! i) [a..<b] = take (b - a) (drop a h)"
  by (rule nth_equalityI) auto

lemma bytes_16_31: "length h = 32 \<Longrightarrow> map (\<lambda>i. h ! i) [16..<32] = take 16 (drop 16 h)"
  using map_nth_upt[of 32 h 16] by simp

lemma fingerprint_spec_low: "fingerprint_spec s = big_endian (take 16 (drop 16 (sha256 (encode s))))"
  by (simp only: fingerprint_spec_def bytes_16_31[OF length_sha256])

lemma getLow128_value: "getLow128BitsOfSHA256 s = Inr (fingerprint_spec s)"
  using low128_loop_horner[of "drop 16 (sha256 (encode s))" 0 0]
  by (simp add: getLow128BitsOfSHA256_def Let_def length_sha256 horner_big_endian
      fingerprint_spec_low)

lemma fingerprint_spec_range: "0 \<le> fingerprint_spec s \<and> fingerprint_spec s < 2 ^ 128"
  using big_endian_bounds[of "take 16 (drop 16 (sha256 (encode s)))"]
  by (simp add: fingerprint_spec_low length_sha256)

text \<open>
  Claim C2. For every string, the fingerprint is bytes 16 to 31 of the 32-byte SHA-256
  digest of its UTF-8 encoding, read as a big-endian unsigned integer of 128 bits; the
  function never fails, and its value depends on the string alone.
\<close>

theorem fingerprint_is_low_16_bytes:
  "getLow128BitsOfSHA256 s = Inr (fingerprint_spec s)
   \<and> length (sha256 (encode s)) = 32
   \<and> 0 \<le> fingerprint_spec s \<and> fingerprint_spec s < 2 ^ 128"
  using getLow128_value length_sha256 fingerprint_spec_range by blast

theorem fingerprint_is_low_16_bytes_witness:
  "getLow128BitsOfSHA256 (ascii ''T'') = Inr (fingerprint_spec (ascii ''T''))
   \<and> fingerprint_spec (ascii ''T'') < 2 ^ 128"
  using fingerprint_is_low_16_bytes[of "ascii ''T''"] by simp

subsection \<open>What \<open>update\<close> sends to the database\<close>

lemma property_select_star [simp]:
  "property (select_star r) ''rowid'' = JUndefined"
  "property (select_star r) ''id'' = JStr (id_col r)"
  "property (select_star r) ''title'' = JStr (title r)"
  "property (select_star r) ''IsVerified'' = JNum (Fin (of_int (IsVerified r)))"
  by (simp_all add: select_star_def property_def)

lemma and_then_Inr [simp]: "and_then (Inr x) f = f x"
  by (simp add: and_then_def)

lemma and_then_Inl [simp]: "and_then (Inl e) f = Inl e"
  by (simp add: and_then_def)

lemma and_then_Inr_iff: "and_then m f = Inr y \<longleftrightarrow> (\<exists>x. m = Inr x \<and> f x = Inr y)"
  by (cases m) simp_all

lemma set_where_rowid_None: "set_where_rowid None f rows = rows"
  by (simp add: set_where_rowid_def)

lemma keep_primary_key_same: "keep_primary_key rows rows = Inr rows"
  by (simp add: keep_primary_key_def)

lemma run_write_UpdateVerified_undefined:
  "run_write (UpdateVerified i e c t JUndefined) s = Inr s' \<Longrightarrow> s' = s"
  by (auto simp: and_then_Inr_iff set_where_rowid_None keep_primary_key_same)

lemma run_write_UpdateId_undefined:
  "run_write (UpdateId (JStr i) JUndefined) s = Inr s"
  by (simp add: set_where_rowid_None keep_primary_key_same)

lemma db_run_UpdateVerified_undefined:
  "snd (db_run (UpdateVerified i e c t JUndefined) printed s)
     = s\<lparr>statements := statements s @ [UpdateVerified i e c t JUndefined]\<rparr>"
proof (cases "run_write (UpdateVerified i e c t JUndefined)
                (s\<lparr>statements := statements s @ [UpdateVerified i e c t JUndefined]\<rparr>)")
  case (Inl err)
  then show ?thesis by (cases err) (simp_all add: db_run_def Let_def)
next
  case (Inr s'')
  then show ?thesis
    using run_write_UpdateVerified_undefined[OF Inr] by (simp add: db_run_def Let_def)
qed

lemma db_run_UpdateId_undefined:
  "db_run (UpdateId (JStr i) JUndefined) printed s
     = (Inr printed, s\<lparr>statements := statements s @ [UpdateId (JStr i) JUndefined]\<rparr>)"
  by (simp add: db_run_def Let_def run_write_UpdateId_undefined del: run_write.simps)

lemma db_get_SelectUnverified:
  "db_get SelectUnverified s
     = (map_option select_star (first_unverified (Markets s)),
        s\<lparr>statements := statements s @ [SelectUnverified]\<rparr>)"
  by (simp add: db_get_def)

lemma ToString_JStr [simp]: "ToString (JStr t) = Inr t"
  by (simp add: ToString_def)

text \<open>How \<open>update\<close> goes on after its query: a match, no match, or no pending record.\<close>

lemma update_pending_match:
  assumes "first_unverified (Markets s) = Some r"
    and "find (\<lambda>chainQ. property chainQ ''question_title_hash''
                 = JBigInt (fingerprint_spec (title r))) contractList = Some matched"
    and "toString (property matched ''id'') = Inr newId"
  shows "update (Inr contractList) s
     = db_run (UpdateVerified (JStr newId) (property matched ''expiration'')
                 (property matched ''creator'') (property matched ''totalAmount'') JUndefined)
         (Verified newId) (s\<lparr>statements := statements s @ [SelectUnverified]\<rparr>)"
  using assms by (simp add: update_def db_get_SelectUnverified getLow128_value)

lemma update_pending_no_match:
  assumes "first_unverified (Markets s) = Some r"
    and "find (\<lambda>chainQ. property chainQ ''question_title_hash''
                 = JBigInt (fingerprint_spec (title r))) contractList = None"
    and "suggested_id contractList = Inr suggestedId"
  shows "update (Inr contractList) s
     = (if id_col r \<noteq> suggestedId
        then (Inr (Unmatched suggestedId True),
              s\<lparr>statements := statements s @ [SelectUnverified, UpdateId (JStr suggestedId) JUndefined]\<rparr>)
        else (Inr (Unmatched suggestedId False),
              s\<lparr>statements := statements s @ [SelectUnverified]\<rparr>))"
  using assms
  by (simp add: update_def db_get_SelectUnverified getLow128_value db_run_UpdateId_undefined)

lemma update_none_pending:
  assumes "first_unverified (Markets s) = None"
  shows "update (Inr contractList) s
     = (Inr NoPendingRecord, s\<lparr>statements := statements s @ [SelectUnverified]\<rparr>)"
  using assms by (simp add: update_def db_get_SelectUnverified)

lemma update_effect:
  "\<exists>new. snd (update listed s) = s\<lparr>statements := statements s @ new\<rparr>
     \<and> (new = [] \<or> new = [SelectUnverified]
         \<or> (\<exists>i e c t. new = [SelectUnverified, UpdateVerified i e c t JUndefined])
         \<or> (\<exists>i. new = [SelectUnverified, UpdateId (JStr i) JUndefined]))"
proof (cases listed)
  case (Inl e)
  then have "snd (update listed s) = s\<lparr>statements := statements s @ []\<rparr>"
    by (simp add: update_def)
  then show ?thesis by blast
next
  case (Inr contractList)
  let ?s1 = "s\<lparr>statements := statements s @ [SelectUnverified]\<rparr>"
  show ?thesis
  proof (cases "first_unverified (Markets s)")
    case None
    have "snd (update listed s) = ?s1"
      unfolding Inr update_none_pending[OF None] by simp
    then show ?thesis by blast
  next
    case (Some r)
    show ?thesis
    proof (cases "find (\<lambda>chainQ. property chainQ ''question_title_hash''
                 = JBigInt (fingerprint_spec (title r))) contractList")
      case None
      show ?thesis
      proof (cases "suggested_id contractList")
        case (Inl e)
        with Some None Inr have "snd (update listed s) = ?s1"
          by (simp add: update_def db_get_SelectUnverified getLow128_value)
        then show ?thesis by blast
      next
        case (Inr suggestedId)
        have "snd (update listed s) = ?s1
            \<or> snd (update listed s)
                = s\<lparr>statements := statements s @
                     [SelectUnverified, UpdateId (JStr suggestedId) JUndefined]\<rparr>"
          unfolding \<open>listed = Inr contractList\<close> update_pending_no_match[OF Some None Inr]
          by simp
        then show ?thesis by blast
      qed
    next
      case (Some matched)
      show ?thesis
      proof (cases "toString (property matched ''id'')")
        case (Inl e)
        with \<open>first_unverified (Markets s) = Some r\<close> Some Inr have "snd (update listed s) = ?s1"
          by (simp add: update_def db_get_SelectUnverified getLow128_value)
        then show ?thesis by blast
      next
        case (Inr newId)
        have "snd (update listed s)
            = s\<lparr>statements := statements s @
                 [SelectUnverified,
                  UpdateVerified (JStr newId) (property matched ''expiration'')
                    (property matched ''creator'') (property matched ''totalAmount'')
                    JUndefined]\<rparr>"
          unfolding \<open>listed = Inr contractList\<close>
            update_pending_match[OF \<open>first_unverified (Markets s) = Some r\<close> Some Inr]
            db_run_UpdateVerified_undefined
          by simp
        then show ?thesis by blast
      qed
    qed
  qed
qed

lemma update_keeps_tables:
  "Markets (snd (update listed s)) = Markets s \<and> Bets (snd (update listed s)) = Bets s"
  using update_effect[of listed s] by auto

subsection \<open>The example states\<close>

lemma ascii_simps: "ascii [] = []" "ascii (c # cs) = of_nat (of_char c) # ascii cs"
  by (simp_all add: ascii_def)

lemma first_unverified_store_T: "first_unverified (Markets store_T) = Some pending_T"
  by (simp add: first_unverified_def store_T_def pending_T_def)

lemma find_question_42:
  "find (\<lambda>chainQ. property chainQ ''question_title_hash''
           = JBigInt (fingerprint_spec (title pending_T))) [question_42] = Some question_42"
  by (simp add: question_42_def pending_T_def property_def)

lemma find_question_7:
  "find (\<lambda>chainQ. property chainQ ''question_title_hash''
           = JBigInt (fingerprint_spec (title pending_T))) [question_7] = None"
  by (simp add: question_7_def pending_T_def property_def)

lemma toString_question_42: "toString (property question_42 ''id'') = Inr (ascii ''42'')"
  by (simp add: question_42_def property_def toString_def)

lemma suggested_id_question_7: "suggested_id [question_7] = Inr (ascii ''8'')"
  by (simp add: suggested_id_def question_7_def property_def parseInt_def
      ascii_simps js_whitespace_def is_digit_def decimal_value_def digit_value_def
      num_add_def safe_integer_def is_integer_def num_toString_def decimal_def decimal_nat.simps)

lemma suggested_id_empty: "suggested_id [] = Inr (ascii ''1'')"
  by (simp add: suggested_id_def ascii_simps
      num_add_def safe_integer_def is_integer_def num_toString_def decimal_def decimal_nat.simps)

lemma id_5_not_8: "id_col pending_T \<noteq> ascii ''8''"
  by (simp add: pending_T_def ascii_simps)

subsection \<open>Reconciliation\<close>

text \<open>
  Claim C1. The claim: when the snapshot has an entry with the fingerprint of the pending
  record's title, one call rewrites the record to the first such entry and marks it
  resolved, in a single update by row handle, and reports \<open>Verified\<close>.

  The code sends that update, but with no row handle: \<open>SELECT *\<close> returns the declared
  columns only, so \<open>unverified.rowid\<close> is \<open>undefined\<close>, the parameter of
  \<open>WHERE rowid = ?\<close> is \<open>NULL\<close>, and no row is changed. The theorem states what the
  call does to the database: it appends the two statements to the log and nothing else.
\<close>

theorem update_match_changes_no_row:
  assumes "first_unverified (Markets s) = Some r"
    and "find (\<lambda>chainQ. property chainQ ''question_title_hash''
                 = JBigInt (fingerprint_spec (title r))) contractList = Some matched"
    and "toString (property matched ''id'') = Inr newId"
  shows "snd (update (Inr contractList) s)
     = s\<lparr>statements := statements s @
          [SelectUnverified,
           UpdateVerified (JStr newId) (property matched ''expiration'')
             (property matched ''creator'') (property matched ''totalAmount'') JUndefined]\<rparr>"
  unfolding update_pending_match[OF assms] db_run_UpdateVerified_undefined by simp

theorem update_match_changes_no_row_witness:
  "update (Inr [question_42]) store_T
     = (Inr (Verified (ascii ''42'')),
        store_T\<lparr>statements :=
          [SelectUnverified,
           UpdateVerified (JStr (ascii ''42'')) (JStr (ascii ''2027-01-01''))
             (JStr (ascii ''0xdef'')) (JNum (Fin 100)) JUndefined]\<rparr>)
   \<and> Markets store_T = [pending_T]
   \<and> id_col pending_T = ascii ''5'' \<and> IsVerified pending_T = 0"
proof -
  have "snd (update (Inr [question_42]) store_T)
     = store_T\<lparr>statements :=
          [SelectUnverified,
           UpdateVerified (JStr (ascii ''42'')) (JStr (ascii ''2027-01-01''))
             (JStr (ascii ''0xdef'')) (JNum (Fin 100)) JUndefined]\<rparr>"
    using update_match_changes_no_row[OF first_unverified_store_T find_question_42
        toString_question_42]
    by (simp add: question_42_def property_def store_T_def)
  moreover have "fst (update (Inr [question_42]) store_T) = Inr (Verified (ascii ''42''))"
    unfolding update_pending_match[OF first_unverified_store_T find_question_42
        toString_question_42]
    by (simp add: db_run_def Let_def question_42_def property_def set_where_rowid_None
        keep_primary_key_same)
  ultimately show ?thesis
    by (simp add: prod_eq_iff store_T_def pending_T_def)
qed

text \<open>
  Claim C3. The claim: with no matching entry, the call computes the suggested identity
  (the last entry's identity plus one, 1 for an empty snapshot), rewrites only the identity
  when it differs, and writes nothing when it is equal; a record with identity 5 against a
  last entry 7 ends with identity 8.

  The suggestion is computed as claimed, and the update is sent when the identity differs,
  but again with no row handle, so the record keeps its identity. The theorem states the
  whole result of the call in that case.
\<close>

theorem update_no_match_changes_no_row:
  assumes "first_unverified (Markets s) = Some r"
    and "find (\<lambda>chainQ. property chainQ ''question_title_hash''
                 = JBigInt (fingerprint_spec (title r))) contractList = None"
    and "suggested_id contractList = Inr suggestedId"
    and "id_col r \<noteq> suggestedId"
  shows "update (Inr contractList) s
     = (Inr (Unmatched suggestedId True),
        s\<lparr>statements := statements s @
          [SelectUnverified, UpdateId (JStr suggestedId) JUndefined]\<rparr>)"
  using update_pending_no_match[OF assms(1-3)] assms(4) by simp

theorem update_no_match_changes_no_row_witness:
  "update (Inr [question_7]) store_T
     = (Inr (Unmatched (ascii ''8'') True),
        store_T\<lparr>statements := [SelectUnverified, UpdateId (JStr (ascii ''8'')) JUndefined]\<rparr>)
   \<and> Markets store_T = [pending_T] \<and> id_col pending_T = ascii ''5''"
  using update_no_match_changes_no_row[OF first_unverified_store_T find_question_7
      suggested_id_question_7 id_5_not_8]
  by (simp add: store_T_def pending_T_def)

text \<open>
  The parts of the third claim that hold: the suggestion for an empty snapshot is 1, and a
  record whose identity already is the suggestion causes no write.
\<close>

lemma update_no_match_same_identity:
  assumes "first_unverified (Markets s) = Some r"
    and "find (\<lambda>chainQ. property chainQ ''question_title_hash''
                 = JBigInt (fingerprint_spec (title r))) contractList = None"
    and "suggested_id contractList = Inr (id_col r)"
  shows "update (Inr contractList) s
     = (Inr (Unmatched (id_col r) False), s\<lparr>statements := statements s @ [SelectUnverified]\<rparr>)"
  using update_pending_no_match[OF assms] by simp

text \<open>
  Claim C5. When fetching the contract's list fails, the call stops with that error before
  it reads or writes the database: the database, with its log of statements, is as before.
\<close>

theorem update_fetch_failure: "update (Inl e) s = (Inl e, s)"
  by (simp add: update_def)

theorem update_fetch_failure_witness:
  "update (Inl TransportError) store_T = (Inl TransportError, store_T)
   \<and> statements store_T = []"
  using update_fetch_failure[of TransportError store_T] by (simp add: store_T_def)

text \<open>
  Claim C6. When no record is unverified, the call reports that there is no pending
  record; the pending-record query is the only statement it sends, and no table changes.
\<close>

theorem update_no_pending_record:
  assumes "\<forall>r \<in> set (Markets s). IsVerified r \<noteq> 0"
  shows "update (Inr contractList) s
     = (Inr NoPendingRecord, s\<lparr>statements := statements s @ [SelectUnverified]\<rparr>)"
proof -
  from assms have "first_unverified (Markets s) = None"
    by (simp add: first_unverified_def find_None_iff)
  then show ?thesis by (rule update_none_pending)
qed

theorem update_no_pending_record_witness:
  "update (Inr [question_42]) store_verified
     = (Inr NoPendingRecord, store_verified\<lparr>statements := [SelectUnverified]\<rparr>)
   \<and> list_all (\<lambda>r. IsVerified r \<noteq> 0) (Markets store_verified)"
proof -
  have h: "\<forall>r \<in> set (Markets store_verified). IsVerified r \<noteq> 0"
    by (simp add: store_verified_def verified_42_def)
  show ?thesis
    using update_no_pending_record[OF h, of "[question_42]"]
    by (simp add: store_verified_def verified_42_def)
qed

lemma fst_db_run_NoPendingRecord:
  "fst (db_run st printed s) = Inr NoPendingRecord \<Longrightarrow> printed = NoPendingRecord"
  by (auto simp: db_run_def Let_def split: sum.splits error.splits)

lemma update_NoPendingRecord_iff:
  "fst (update (Inr contractList) s) = Inr NoPendingRecord
     \<longleftrightarrow> first_unverified (Markets s) = None"
proof (cases "first_unverified (Markets s)")
  case None
  then show ?thesis by (simp add: update_none_pending)
next
  case (Some r)
  have "fst (update (Inr contractList) s) \<noteq> Inr NoPendingRecord"
  proof (cases "find (\<lambda>chainQ. property chainQ ''question_title_hash''
                 = JBigInt (fingerprint_spec (title r))) contractList")
    case None
    show ?thesis
    proof (cases "suggested_id contractList")
      case (Inl e)
      with Some None show ?thesis
        by (simp add: update_def db_get_SelectUnverified getLow128_value)
    next
      case (Inr suggestedId)
      show ?thesis unfolding update_pending_no_match[OF Some None Inr] by simp
    qed
  next
    case matched: (Some matched)
    show ?thesis
    proof (cases "toString (property matched ''id'')")
      case (Inl e)
      with Some matched show ?thesis
        by (simp add: update_def db_get_SelectUnverified getLow128_value)
    next
      case (Inr newId)
      show ?thesis
        unfolding update_pending_match[OF Some matched Inr]
        using fst_db_run_NoPendingRecord by fastforce
    qed
  qed
  with Some show ?thesis by simp
qed

lemma keep_primary_key_Inr: "keep_primary_key rows rows' = Inr x \<Longrightarrow> x = rows'"
  by (simp add: keep_primary_key_def split: if_splits)

lemma run_write_UpdateId_Markets:
  assumes "run_write (UpdateId newId h) s0 = Inr s0'"
  shows "\<exists>i k. Markets s0' = set_where_rowid k (\<lambda>r. r\<lparr>id_col := i\<rparr>) (Markets s0)"
  using assms by (auto simp: and_then_Inr_iff dest!: keep_primary_key_Inr) blast

lemma run_write_UpdateId_keeps_IsVerified:
  assumes "run_write (UpdateId newId h) s0 = Inr s0'"
  shows "map IsVerified (Markets s0') = map IsVerified (Markets s0)"
proof -
  from run_write_UpdateId_Markets[OF assms] obtain i k
    where "Markets s0' = set_where_rowid k (\<lambda>r. r\<lparr>id_col := i\<rparr>) (Markets s0)" by blast
  then show ?thesis by (simp add: set_where_rowid_def comp_def)
qed







subsection \<open>What one statement can do\<close>

lemma list_all2_map_same:
  "(\<And>r. r \<in> set rows \<Longrightarrow> P r (g r)) \<Longrightarrow> list_all2 P rows (map g rows)"
  by (simp add: list.rel_map list_all2_same)

lemma run_write_UpdateVerified_Markets:
  assumes "run_write (UpdateVerified newId e c t h) s0 = Inr s0'"
  shows "\<exists>i e' c' t' k. Markets s0' = set_where_rowid k
            (\<lambda>r. r\<lparr>id_col := i, expiration := e', creator := c', totalAmount := t',
                    IsVerified := 1\<rparr>) (Markets s0)
          \<and> text_param newId = Inr i"
  using assms by (auto simp: and_then_Inr_iff dest!: keep_primary_key_Inr) blast

lemma add_total_rows:
  "add_total k v rows = Inr rows' \<Longrightarrow>
   list_all2 (\<lambda>r r'. \<exists>t. r' = r\<lparr>totalAmount := t\<rparr>) rows rows'"
proof (induction rows arbitrary: rows')
  case Nil
  then show ?case by simp
next
  case (Cons r rows)
  from Cons.prems obtain r1 rows1 where
    r1: "(if Some (id_col r) = k
          then and_then (and_then (sql_add (totalAmount r) v) integer_affinity)
                 (\<lambda>t. Inr (r\<lparr>totalAmount := t\<rparr>))
          else Inr r) = Inr r1"
    and rows1: "add_total k v rows = Inr rows1" and eq: "rows' = r1 # rows1"
    by (auto simp: and_then_Inr_iff)
  from r1 have "\<exists>t. r1 = r\<lparr>totalAmount := t\<rparr>"
    by (auto simp: and_then_Inr_iff split: if_splits intro: exI[of _ "totalAmount r"])
  with Cons.IH[OF rows1] eq show ?case by simp
qed

lemma run_write_keeps_resolved:
  assumes "run_write st s0 = Inr s0'"
  shows "list_all2 (\<lambda>r r'. rowid r' = rowid r \<and> (IsVerified r \<noteq> 0 \<longrightarrow> IsVerified r' \<noteq> 0))
           (Markets s0) (Markets s0')"
proof (cases st)
  case SelectUnverified
  with assms show ?thesis by (auto simp: list_all2_same)
next
  case (UpdateVerified newId e c t h)
  from run_write_UpdateVerified_Markets[OF assms[unfolded UpdateVerified]]
  show ?thesis
    by (auto simp: set_where_rowid_def intro!: list_all2_map_same split: if_splits)
next
  case (UpdateId newId h)
  from run_write_UpdateId_Markets[OF assms[unfolded UpdateId]]
  show ?thesis
    by (auto simp: set_where_rowid_def intro!: list_all2_map_same split: if_splits)
next
  case SelectMaxId
  with assms show ?thesis by (auto simp: list_all2_same)
next
  case (InsertBet b m u a out d)
  with assms show ?thesis
    by (auto simp: and_then_Inr_iff list_all2_same split: if_splits)
next
  case (UpdateTotalAmount a m)
  with assms obtain k v where "add_total k v (Markets s0) = Inr (Markets s0')"
    by (auto simp: and_then_Inr_iff)
  from add_total_rows[OF this] show ?thesis
    by (rule list_all2_mono) auto
qed

text \<open>
  Claim C8. A record with \<open>IsVerified\<close> set stays so: no statement the program sends
  clears the flag of a row or removes a row of \<open>Markets\<close>; the pending-record query
  never returns such a record; and a call of \<open>update\<close> leaves every such record as it is.
\<close>

theorem resolved_is_terminal:
  "(\<forall>st s0 s0'. run_write st s0 = Inr s0' \<longrightarrow>
      list_all2 (\<lambda>r r'. rowid r' = rowid r \<and> (IsVerified r \<noteq> 0 \<longrightarrow> IsVerified r' \<noteq> 0))
        (Markets s0) (Markets s0'))
   \<and> (\<forall>row s1. db_get SelectUnverified s = (Some row, s1)
         \<longrightarrow> property row ''IsVerified'' = JNum (Fin 0))
   \<and> (\<forall>r \<in> set (Markets s). IsVerified r \<noteq> 0 \<longrightarrow> r \<in> set (Markets (snd (update listed s))))"
proof (intro conjI allI impI ballI)
  fix st s0 s0' assume "run_write st s0 = Inr s0'"
  then show "list_all2 (\<lambda>r r'. rowid r' = rowid r \<and> (IsVerified r \<noteq> 0 \<longrightarrow> IsVerified r' \<noteq> 0))
        (Markets s0) (Markets s0')"
    by (rule run_write_keeps_resolved)
next
  fix row s1 assume "db_get SelectUnverified s = (Some row, s1)"
  then obtain r where "first_unverified (Markets s) = Some r" and row: "row = select_star r"
    by (auto simp: db_get_SelectUnverified)
  then have "IsVerified r = 0"
    by (auto simp: first_unverified_def find_Some_iff)
  with row show "property row ''IsVerified'' = JNum (Fin 0)" by simp
next
  fix r assume "r \<in> set (Markets s)"
  then show "r \<in> set (Markets (snd (update listed s)))"
    by (simp add: update_keeps_tables)
qed

theorem resolved_is_terminal_witness:
  "run_write (UpdateId (JStr (ascii ''9'')) (JNum (Fin 1))) store_verified
     = Inr (store_verified\<lparr>Markets := [verified_42\<lparr>id_col := ascii ''9''\<rparr>]\<rparr>)
   \<and> list_all2 (\<lambda>r r'. rowid r' = rowid r \<and> IsVerified r' \<noteq> 0)
       (Markets store_verified) [verified_42\<lparr>id_col := ascii ''9''\<rparr>]
   \<and> db_get SelectUnverified store_T
       = (Some (select_star pending_T), store_T\<lparr>statements := [SelectUnverified]\<rparr>)
   \<and> property (select_star pending_T) ''IsVerified'' = JNum (Fin 0)
   \<and> verified_42 \<in> set (Markets (snd (update (Inr [question_7]) store_verified)))"
proof -
  have w: "run_write (UpdateId (JStr (ascii ''9'')) (JNum (Fin 1))) store_verified
     = Inr (store_verified\<lparr>Markets := [verified_42\<lparr>id_col := ascii ''9''\<rparr>]\<rparr>)"
    by (simp add: store_verified_def verified_42_def is_integer_def set_where_rowid_def
        keep_primary_key_def)
  have g: "db_get SelectUnverified store_T
       = (Some (select_star pending_T), store_T\<lparr>statements := [SelectUnverified]\<rparr>)"
    by (simp add: db_get_SelectUnverified first_unverified_store_T) (simp add: store_T_def)
  have v: "verified_42 \<in> set (Markets store_verified)" "IsVerified verified_42 \<noteq> 0"
    by (simp_all add: store_verified_def verified_42_def)
  note t = resolved_is_terminal[of store_T "Inr [question_7]"]
  note t' = resolved_is_terminal[of store_verified "Inr [question_7]"]
  from t w have "list_all2 (\<lambda>r r'. rowid r' = rowid r \<and> (IsVerified r \<noteq> 0 \<longrightarrow> IsVerified r' \<noteq> 0))
       (Markets store_verified) (Markets (store_verified\<lparr>Markets := [verified_42\<lparr>id_col := ascii ''9''\<rparr>]\<rparr>))"
    by blast
  then have a: "list_all2 (\<lambda>r r'. rowid r' = rowid r \<and> IsVerified r' \<noteq> 0)
       (Markets store_verified) [verified_42\<lparr>id_col := ascii ''9''\<rparr>]"
    by (simp add: store_verified_def verified_42_def)
  from t g have b: "property (select_star pending_T) ''IsVerified'' = JNum (Fin 0)" by blast
  from t' v have c: "verified_42 \<in> set (Markets (snd (update (Inr [question_7]) store_verified)))"
    by blast
  from w a g b c show ?thesis by blast
qed

lemma run_write_UpdateVerified_all_or_nothing:
  assumes "run_write (UpdateVerified newId e c t h) s0 = Inr s0'"
  shows "\<exists>i e' c' t'. list_all2
           (\<lambda>r r'. r' = r \<or> r' = r\<lparr>id_col := i, expiration := e', creator := c',
                                       totalAmount := t', IsVerified := 1\<rparr>)
           (Markets s0) (Markets s0')"
proof -
  from run_write_UpdateVerified_Markets[OF assms] obtain i e' c' t' k where
    "Markets s0' = set_where_rowid k
            (\<lambda>r. r\<lparr>id_col := i, expiration := e', creator := c', totalAmount := t',
                    IsVerified := 1\<rparr>) (Markets s0)" by blast
  then have "list_all2
           (\<lambda>r r'. r' = r \<or> r' = r\<lparr>id_col := i, expiration := e', creator := c',
                                       totalAmount := t', IsVerified := 1\<rparr>)
           (Markets s0) (Markets s0')"
    by (auto simp: set_where_rowid_def intro!: list_all2_map_same)
  then show ?thesis by blast
qed

lemma update_statements:
  "\<exists>new. snd (update listed s) = after_writes new (s\<lparr>statements := statements s @ new\<rparr>)
     \<and> statements (snd (update listed s)) = statements s @ new
     \<and> length (filter is_read new) \<le> 1 \<and> length (filter is_write new) \<le> 1"
proof -
  from update_effect[of listed s] obtain new where
    s': "snd (update listed s) = s\<lparr>statements := statements s @ new\<rparr>"
    and new: "new = [] \<or> new = [SelectUnverified]
         \<or> (\<exists>i e c t. new = [SelectUnverified, UpdateVerified i e c t JUndefined])
         \<or> (\<exists>i. new = [SelectUnverified, UpdateId (JStr i) JUndefined])"
    by blast
  let ?s1 = "s\<lparr>statements := statements s @ new\<rparr>"
  from new have "after_writes new ?s1 = ?s1"
  proof (elim disjE exE)
    fix i e c t assume n: "new = [SelectUnverified, UpdateVerified i e c t JUndefined]"
    show ?thesis
    proof (cases "run_write (UpdateVerified i e c t JUndefined) ?s1")
      case (Inl err)
      with n show ?thesis by (simp add: after_writes_def del: run_write.simps)
    next
      case (Inr s'')
      with n run_write_UpdateVerified_undefined[OF Inr] show ?thesis
        by (simp add: after_writes_def del: run_write.simps)
    qed
  next
    fix i assume n: "new = [SelectUnverified, UpdateId (JStr i) JUndefined]"
    then show ?thesis
      by (simp add: after_writes_def run_write_UpdateId_undefined del: run_write.simps)
  qed (simp_all add: after_writes_def)
  moreover from new have "length (filter is_read new) \<le> 1 \<and> length (filter is_write new) \<le> 1"
    by auto
  ultimately show ?thesis using s' by (intro exI[of _ new]) simp
qed

text \<open>
  Claim C7. One call of \<open>update\<close> sends at most one query and at most one writing
  statement, and the database after the call is the database before it with, at most, that
  one statement carried out. The statement of the match branch sets its five columns
  together: each row is afterwards either as it was or has all five new values.
\<close>

theorem update_at_most_one_read_one_write:
  "(\<exists>new. statements (snd (update listed s)) = statements s @ new
       \<and> length (filter is_read new) \<le> 1 \<and> length (filter is_write new) \<le> 1
       \<and> snd (update listed s) = after_writes new (s\<lparr>statements := statements s @ new\<rparr>))
   \<and> (\<forall>newId e c t h s0 s0'. run_write (UpdateVerified newId e c t h) s0 = Inr s0' \<longrightarrow>
        (\<exists>i e' c' t'. list_all2
           (\<lambda>r r'. r' = r \<or> r' = r\<lparr>id_col := i, expiration := e', creator := c',
                                       totalAmount := t', IsVerified := 1\<rparr>)
           (Markets s0) (Markets s0')))"
  using update_statements[of listed s] run_write_UpdateVerified_all_or_nothing by blast

lemma run_write_UpdateVerified_rowid_1:
  "run_write (UpdateVerified (JStr (ascii ''42'')) (JStr (ascii ''2027-01-01''))
       (JStr (ascii ''0xdef'')) (JNum (Fin 100)) (JNum (Fin 1))) store_T
     = Inr (store_T\<lparr>Markets := [verified_42]\<rparr>)"
  by (simp add: store_T_def pending_T_def verified_42_def is_integer_def set_where_rowid_def
      keep_primary_key_def)

theorem update_at_most_one_read_one_write_witness:
  "(\<exists>new. statements (snd (update (Inr [question_42]) store_T)) = statements store_T @ new
       \<and> length (filter is_read new) \<le> 1 \<and> length (filter is_write new) \<le> 1)
   \<and> run_write (UpdateVerified (JStr (ascii ''42'')) (JStr (ascii ''2027-01-01''))
       (JStr (ascii ''0xdef'')) (JNum (Fin 100)) (JNum (Fin 1))) store_T
       = Inr (store_T\<lparr>Markets := [verified_42]\<rparr>)
   \<and> (\<exists>i e' c' t'. list_all2
           (\<lambda>r r'. r' = r \<or> r' = r\<lparr>id_col := i, expiration := e', creator := c',
                                       totalAmount := t', IsVerified := 1\<rparr>)
           (Markets store_T) (Markets (store_T\<lparr>Markets := [verified_42]\<rparr>)))"
  using update_at_most_one_read_one_write[of "Inr [question_42]" store_T]
    run_write_UpdateVerified_rowid_1
  by blast

subsection \<open>Plain numerals\<close>

lemma unat_digit_char: "d < 10 \<Longrightarrow> unat (48 + of_nat d :: 16 word) = 48 + d"
proof -
  assume d: "d < 10"
  have "(48 + of_nat d :: 16 word) = of_nat (48 + d)" by simp
  then have "unat (48 + of_nat d :: 16 word) = (48 + d) mod 2 ^ LENGTH(16)"
    by (simp only: unat_of_nat)
  with d show ?thesis by simp
qed


lemma digit_value_digit_char: "d < 10 \<Longrightarrow> digit_value (48 + of_nat d) = d"
  by (simp add: digit_value_def unat_digit_char)



lemma decimal_value_snoc: "decimal_value (ds @ [c]) = 10 * decimal_value ds + digit_value c"
  by (simp add: decimal_value_def)

lemma decimal_value_decimal_nat: "decimal_value (decimal_nat n) = n"
proof (induction n rule: decimal_nat.induct)
  case (1 n)
  show ?case
  proof (cases "n < 10")
    case True
    then show ?thesis
      by (simp add: decimal_nat.simps[of n] decimal_value_def digit_value_digit_char)
  next
    case False
    with 1 show ?thesis
      by (simp add: decimal_nat.simps[of n] decimal_value_snoc digit_value_digit_char)
  qed
qed










subsection \<open>The query for the largest id\<close>













subsection \<open>Saving a bet\<close>

text \<open>The comparison of the amount with 0 is described for every value: it answers or throws.\<close>

lemma element_le_zero_error: "element_le_zero v = Inl e \<Longrightarrow> e = TypeError"
  by (induction v rule: element_le_zero.induct) (auto split: if_splits)

lemma le_zero_error: "le_zero v = Inl e \<Longrightarrow> e = TypeError"
  by (cases v rule: le_zero.cases) (auto dest: element_le_zero_error split: if_splits)

text \<open>
  Claim C10. A request in which one of the five fields is missing, or whose amount is at
  most 0, is answered with status 400, and the database is left as it was: no statement is
  sent, so no row of \<open>Bets\<close> is added and no \<open>totalAmount\<close> changes.
\<close>

theorem save_bet_rejects:
  assumes "userId req = JUndefined \<or> marketId req = JUndefined \<or> amount req = JUndefined
           \<or> outcome req = JUndefined \<or> date req = JUndefined
           \<or> le_zero (amount req) = Inr True"
  shows "\<exists>message. save_bet now req s = (Inr (Response 400 (ErrorMessage message)), s)"
proof (cases "truthy (userId req) \<and> truthy (marketId req) \<and> truthy (amount req)
              \<and> truthy (outcome req) \<and> truthy (date req)")
  case True
  with assms have "le_zero (amount req) = Inr True" by auto
  with True show ?thesis by (simp add: save_bet_def)
next
  case False
  then show ?thesis by (auto simp: save_bet_def)
qed

lemma le_zero_examples:
  "le_zero (JStr (ascii ''-5'')) = Inr True" "le_zero (JStr (ascii ''0'')) = Inr True"
  "le_zero (JArray []) = Inr True" "le_zero (JStr (ascii ''5'')) = Inr False"
  by (simp_all add: text_le_zero_def trim_def ascii_simps js_whitespace_def decimal_literal_def
      is_digit_def decimal_value_def digit_value_def rounds_to_zero_def)

theorem save_bet_rejects_witness:
  "save_bet 1700000000000 bet_minus_5 store_T
     = (Inr (Response 400 (ErrorMessage ''Bet amount must be greater than 0'')), store_T)
   \<and> le_zero (amount bet_minus_5) = Inr True
   \<and> (\<exists>message. save_bet 1700000000000 bet_no_date store_T
         = (Inr (Response 400 (ErrorMessage message)), store_T))
   \<and> date bet_no_date = JUndefined
   \<and> (\<exists>message. save_bet 1700000000000 bet_text_minus_5 store_T
         = (Inr (Response 400 (ErrorMessage message)), store_T))
   \<and> amount bet_text_minus_5 = JStr (ascii ''-5'')
   \<and> (\<exists>message. save_bet 1700000000000 bet_empty_array store_T
         = (Inr (Response 400 (ErrorMessage message)), store_T))
   \<and> amount bet_empty_array = JArray []"
proof -
  have a: "le_zero (amount bet_minus_5) = Inr True" by (simp add: bet_minus_5_def)
  have b: "date bet_no_date = JUndefined" by (simp add: bet_no_date_def)
  have c: "save_bet 1700000000000 bet_minus_5 store_T
     = (Inr (Response 400 (ErrorMessage ''Bet amount must be greater than 0'')), store_T)"
    by (simp add: save_bet_def bet_minus_5_def ascii_simps)
  from save_bet_rejects[of bet_no_date 1700000000000 store_T] b
  have d: "\<exists>message. save_bet 1700000000000 bet_no_date store_T
         = (Inr (Response 400 (ErrorMessage message)), store_T)" by blast
  have e: "amount bet_text_minus_5 = JStr (ascii ''-5'')" by (simp add: bet_text_minus_5_def)
  with save_bet_rejects[of bet_text_minus_5 1700000000000 store_T] le_zero_examples(1)
  have f: "\<exists>message. save_bet 1700000000000 bet_text_minus_5 store_T
         = (Inr (Response 400 (ErrorMessage message)), store_T)" by simp
  have g: "amount bet_empty_array = JArray []" by (simp add: bet_empty_array_def)
  with save_bet_rejects[of bet_empty_array 1700000000000 store_T] le_zero_examples(3)
  have h: "\<exists>message. save_bet 1700000000000 bet_empty_array store_T
         = (Inr (Response 400 (ErrorMessage message)), store_T)" by simp
  from a b c d e f g h show ?thesis by blast
qed

text \<open>For comparison, a request that passes both checks is carried out.\<close>

lemma save_bet_accepts_example:
  "save_bet 1700000000000 (bet_minus_5\<lparr>amount := JNum (Fin 10)\<rparr>) store_T
     = (Inr (Response 200 (Success ''Bet saved and totalAmount updated successfully'')),
        \<lparr>Markets = [pending_T\<lparr>totalAmount := SqlNumber 10\<rparr>],
         Bets = [\<lparr>betId = ascii ''1700000000000'', marketId_col = SqlText (ascii ''5''),
                  userId_col = SqlText (ascii ''u1''), amount_col = SqlNumber 10,
                  outcome_col = SqlText (ascii ''yes''),
                  date_col = SqlText (ascii ''2026-01-02'')\<rparr>],
         statements =
           [InsertBet (JStr (ascii ''1700000000000'')) (JStr (ascii ''5''))
              (JStr (ascii ''u1'')) (JNum (Fin 10)) (JStr (ascii ''yes''))
              (JStr (ascii ''2026-01-02'')),
            UpdateTotalAmount (JNum (Fin 10)) (JStr (ascii ''5''))]\<rparr>)"
  by (simp add: save_bet_def bet_minus_5_def store_T_def pending_T_def db_run_bet_def Let_def
      decimal_def decimal_nat.simps ascii_simps safe_integer_def is_integer_def)

end
